theory Spec2Isabelle
  imports Main
begin

section \<open>Python values, exceptions and the outside world\<close>

text \<open>
  The module \<^verbatim>\<open>dangerzone/gui/common.py\<close> is glue code: almost every line calls a
  collaborator (the settings store, the file system, the desktop-entry parser, the process
  spawner, the modal dialog, the readiness check). The embedding keeps the control flow of the
  source and makes each collaborator explicit:
  \<^item> what a collaborator answers is a field of the record \<open>env\<close>, which the functions only read;
  \<^item> what the program changes (the settings, the registry held by the object) and what it does
    to the outside (dialogs, processes, console output) is in the record \<open>world\<close>, passed
    through and returned;
  \<^item> an exception is the \<open>Inl\<close> of a sum, so every \<^verbatim>\<open>try\<close>/\<^verbatim>\<open>except\<close> of the source is a
    case distinction of the model.
\<close>

datatype pyval = PNone | PBool bool | PInt int | PStr string

text \<open>
  The source tells \<^verbatim>\<open>FileNotFoundError\<close> from every other exception (line 140); the other
  classes are kept by name.
\<close>

datatype exn = FileNotFoundError | OtherError string

text \<open>Python's \<^verbatim>\<open>v == True\<close>: the boolean, and the integer 1, which Python compares equal.\<close>

definition py_eq_True :: "pyval \<Rightarrow> bool" where
  "py_eq_True v = (case v of PBool b \<Rightarrow> b | PInt i \<Rightarrow> i = 1 | _ \<Rightarrow> False)"

text \<open>What the program does to the outside, in the order in which it does it.\<close>

datatype event =
    SettingsSet string pyval
  | SettingsSave
  | GetGrNam string
  | IsDockerReady
  | AlertLaunch string string "string option"
  | Print string
  | Run "string list"
  | Popen "string list"

record desktop_entry =
  getMimeTypes :: "string list"
  getName :: string
  getExec :: string

record struct_group =
  gr_name :: string
  gr_mem :: "string list"

text \<open>
  The collaborators. The file system, the group database and the tokenizer answer by their
  argument. The readiness check, the dialog and the process spawner answer by the history of
  events up to and including the call, so that two calls of the same collaborator may answer
  differently (the readiness check before and after the service was started).
\<close>

record env =
  platform_system :: string
  os_path_expanduser :: "string \<Rightarrow> string"
  os_listdir :: "string \<Rightarrow> exn + string list"
  os_path_exists :: "string \<Rightarrow> bool"
  xdg_DesktopEntry :: "string \<Rightarrow> exn + desktop_entry"
  LSCopyAllRoleHandlersForContentType :: "string list"
  LSCopyApplicationURLsForBundleIdentifier :: "string \<Rightarrow> string list option"
  plistlib_load :: "string \<Rightarrow> exn + (string \<rightharpoonup> string)"
  shlex_split :: "string \<Rightarrow> exn + string list"
  grp_getgrnam :: "string \<Rightarrow> exn + struct_group"
  getpass_getuser :: string
  get_resource_path :: "string \<Rightarrow> string"
  docker_ready_answer :: "event list \<Rightarrow> bool"
  dialog_exec :: "event list \<Rightarrow> int"
  subprocess_run_result :: "event list \<Rightarrow> exn + int"
  subprocess_Popen_result :: "event list \<Rightarrow> exn + unit"

text \<open>A Python \<^verbatim>\<open>dict\<close> from strings to strings, in insertion order.\<close>

type_synonym pydict = "(string \<times> string) list"

record world =
  settings_current :: "string \<rightharpoonup> pyval"
  settings_saved :: "string \<rightharpoonup> pyval"
  self_pdf_viewers :: pydict
  trace :: "event list"

definition log :: "event \<Rightarrow> world \<Rightarrow> world" where
  "log e w = w\<lparr>trace := trace w @ [e]\<rparr>"

subsection \<open>The settings collaborator\<close>

text \<open>
  Modelled from the spec: the class \<^verbatim>\<open>Settings\<close> of \<^verbatim>\<open>dangerzone/settings.py\<close> is not
  part of the source at hand. The spec gives it as a key-value store with \<^verbatim>\<open>get(key)\<close>,
  \<^verbatim>\<open>set(key, value)\<close> and \<^verbatim>\<open>save()\<close>, owned and persisted outside this component. A key
  that was never set reads as \<^verbatim>\<open>None\<close>.
\<close>

definition settings_get :: "string \<Rightarrow> world \<Rightarrow> pyval" where
  "settings_get key w = (case settings_current w key of None \<Rightarrow> PNone | Some v \<Rightarrow> v)"

text \<open>
  Modelled from the spec: \<^verbatim>\<open>Settings.set(key, value)\<close>, which is not in the source at hand,
  changes the value held in memory.
\<close>

definition settings_set :: "string \<Rightarrow> pyval \<Rightarrow> world \<Rightarrow> world" where
  "settings_set key val w =
     log (SettingsSet key val) (w\<lparr>settings_current := (settings_current w)(key \<mapsto> val)\<rparr>)"

text \<open>
  Modelled from the spec: \<^verbatim>\<open>Settings.save()\<close>, which is not in the source at hand,
  persists the values held in memory.
\<close>

definition settings_save :: "world \<Rightarrow> world" where
  "settings_save w = log SettingsSave (w\<lparr>settings_saved := settings_current w\<rparr>)"

subsection \<open>The collaborators with an effect\<close>

text \<open>\<^verbatim>\<open>grp.getgrnam(name)\<close>: the lookup is recorded, its answer is the environment's.\<close>

definition getgrnam :: "env \<Rightarrow> string \<Rightarrow> world \<Rightarrow> (exn + struct_group) \<times> world" where
  "getgrnam E name w = (grp_getgrnam E name, log (GetGrNam name) w)"


text \<open>
  \<^verbatim>\<open>Alert(self, global_common, message, ok_text, extra_button_text).launch()\<close> (lines
  235 to 303): the dialog is built and run modally; \<^verbatim>\<open>exec_()\<close> returns the code given to
  \<^verbatim>\<open>done\<close> by the button that closed it.
\<close>

definition QDialog_Accepted :: int where
  "QDialog_Accepted = 1"

definition QDialog_Rejected :: int where
  "QDialog_Rejected = 0"

definition Alert_launch ::
  "env \<Rightarrow> string \<Rightarrow> string \<Rightarrow> string option \<Rightarrow> world \<Rightarrow> int \<times> world" where
  "Alert_launch E message ok_text extra_button_text w =
     (let w' = log (AlertLaunch message ok_text extra_button_text) w
      in (dialog_exec E (trace w'), w'))"

text \<open>\<^verbatim>\<open>subprocess.run(args)\<close> waits for the process and gives its return code.\<close>

definition subprocess_run :: "env \<Rightarrow> string list \<Rightarrow> world \<Rightarrow> (exn + int) \<times> world" where
  "subprocess_run E args w =
     (let w' = log (Run args) w in (subprocess_run_result E (trace w'), w'))"

text \<open>\<^verbatim>\<open>subprocess.Popen(args)\<close> spawns the process and does not wait.\<close>

definition subprocess_Popen :: "env \<Rightarrow> string list \<Rightarrow> world \<Rightarrow> (exn + unit) \<times> world" where
  "subprocess_Popen E args w =
     (let w' = log (Popen args) w in (subprocess_Popen_result E (trace w'), w'))"

definition print :: "string \<Rightarrow> world \<Rightarrow> world" where
  "print s w = log (Print s) w"

section \<open>The group-membership flow\<close>

definition docker_group_message :: string where
  "docker_group_message =
     ''<b>Dangerzone requires Docker</b><br><br>In order to use Docker, your user must be ''
     @ ''in the 'docker' group or you'll need to type your password each time you run ''
     @ ''dangerzone.<br><br><b>Adding your user to the 'docker' group is more convenient ''
     @ ''but less secure</b>, and will require just typing your password once. ''
     @ ''Which do you prefer?''"

definition logout_message :: string where
  "logout_message =
     ''Great! Now you must log out of your computer and log back in, ''
     @ ''and then you can use Dangerzone.''"

definition usermod_failed_message :: string where
  "usermod_failed_message = ''Failed to add your user to the 'docker' group, quitting.''"

text \<open>\<^verbatim>\<open>GuiCommon.ensure_docker_group_preference\<close>, lines 145 to 202.\<close>

definition ensure_docker_group_preference :: "env \<Rightarrow> world \<Rightarrow> (exn + bool) \<times> world" where
  "ensure_docker_group_preference E w =
     (if py_eq_True (settings_get ''linux_prefers_typing_password'' w) then (Inr True, w)
      else
        case getgrnam E ''docker'' w of
          (Inl e, w1) \<Rightarrow> (Inr True, w1)
        | (Inr groupinfo, w1) \<Rightarrow>
            let username = getpass_getuser E in
            if username \<notin> set (gr_mem groupinfo) then
              (case Alert_launch E docker_group_message ''I'll type my password each time''
                      (Some ''Add my user to the 'docker' group'') w1 of
                 (return_code, w2) \<Rightarrow>
                   if return_code = QDialog_Accepted then
                     (Inr True,
                      settings_save
                        (settings_set ''linux_prefers_typing_password'' (PBool True) w2))
                   else if return_code = 2 then
                     (let w3 = settings_save
                                 (settings_set ''linux_prefers_typing_password'' (PBool False) w2)
                      in case subprocess_run E
                                [''/usr/bin/pkexec'', ''/usr/sbin/usermod'', ''-a'', ''-G'',
                                 ''docker'', username] w3 of
                           (Inl e, w4) \<Rightarrow> (Inl e, w4)
                         | (Inr returncode, w4) \<Rightarrow>
                             if returncode = 0 then
                               (case Alert_launch E logout_message ''Ok'' None w4 of
                                  (_, w5) \<Rightarrow> (Inr False, w5))
                             else
                               (case Alert_launch E usermod_failed_message ''Ok'' None w4 of
                                  (_, w5) \<Rightarrow> (Inr False, w5)))
                   else (Inr False, w2))
            else (Inr True, w1))"

section \<open>The service-activation flow\<close>





section \<open>The viewer launcher\<close>

text \<open>
  \<^verbatim>\<open>pipes.quote\<close> (that is \<^verbatim>\<open>shlex.quote\<close>) of the standard library: the empty string
  becomes two quotes, a string of letters, digits and \<^verbatim>\<open>_@%+=:,./-\<close> is left alone, any
  other is put in single quotes, each single quote inside written \<^verbatim>\<open>'"'"'\<close>.
\<close>

definition safe_char :: "char \<Rightarrow> bool" where
  "safe_char c =
     (let n = (of_char c :: nat)
      in (48 \<le> n \<and> n \<le> 57) \<or> (65 \<le> n \<and> n \<le> 90) \<or> (97 \<le> n \<and> n \<le> 122)
         \<or> c \<in> set ''_@%+=:,./-'')"

definition quote :: "string \<Rightarrow> string" where
  "quote s =
     (if s = [] then [CHR 0x27, CHR 0x27]
      else if list_all safe_char s then s
      else [CHR 0x27]
           @ concat (map (\<lambda>c. if c = CHR 0x27
                                then [CHR 0x27, CHR 0x22, CHR 0x27, CHR 0x22, CHR 0x27]
                                else [c]) s)
           @ [CHR 0x27])"

text \<open>\<^verbatim>\<open>" ".join(xs)\<close>.\<close>

fun join_space :: "string list \<Rightarrow> string" where
  "join_space [] = []"
| "join_space [x] = x"
| "join_space (x # y # ys) = x @ '' '' @ join_space (y # ys)"

text \<open>
  \<^verbatim>\<open>Fore.YELLOW\<close> and \<^verbatim>\<open>Fore.CYAN\<close> of colorama, and the triangular bullet U+2023 followed by a space,
  in UTF-8.
\<close>

definition Fore_YELLOW :: string where
  "Fore_YELLOW = CHR 0x1B # ''[33m''"

definition Fore_CYAN :: string where
  "Fore_CYAN = CHR 0x1B # ''[36m''"

definition bullet :: string where
  "bullet = [CHR 0xE2, CHR 0x80, CHR 0xA3, CHR '' '']"

definition print_command :: "string list \<Rightarrow> world \<Rightarrow> world" where
  "print_command args w =
     (let args_str = join_space (map quote args)
      in print (Fore_YELLOW @ bullet @ Fore_CYAN @ args_str) w)"

text \<open>
  \<^verbatim>\<open>key in self.pdf_viewers\<close> and \<^verbatim>\<open>self.pdf_viewers[key]\<close> for a key read from the
  settings: the keys of the registry are strings, so a key that is not a string is not found.
\<close>

definition dict_lookup :: "pydict \<Rightarrow> pyval \<Rightarrow> string option" where
  "dict_lookup d key = (case key of PStr s \<Rightarrow> map_of d s | _ \<Rightarrow> None)"

text \<open>
  The loop of lines 68 to 75: \<^verbatim>\<open>for i in range(len(args))\<close>, with the bound taken once,
  before the first round.
\<close>

definition is_placeholder :: "string \<Rightarrow> bool" where
  "is_placeholder a = (a = ''%f'' \<or> a = ''%F'' \<or> a = ''%u'' \<or> a = ''%U'')"

function replace_placeholders :: "nat \<Rightarrow> nat \<Rightarrow> string \<Rightarrow> string list \<Rightarrow> string list" where
  "replace_placeholders i n filename args =
     (if i < n then
        (if is_placeholder (args ! i)
         then replace_placeholders (Suc i) n filename (args[i := filename])
         else replace_placeholders (Suc i) n filename args)
      else args)"
  by pat_completeness auto
termination
  by (relation "measure (\<lambda>(i, n, filename, args). n - i)") auto

declare replace_placeholders.simps [simp del]

text \<open>\<^verbatim>\<open>GuiCommon.open_pdf_viewer\<close>, lines 48 to 80.\<close>

definition open_pdf_viewer :: "env \<Rightarrow> string \<Rightarrow> world \<Rightarrow> (exn + unit) \<times> world" where
  "open_pdf_viewer E filename w =
     (case dict_lookup (self_pdf_viewers w) (settings_get ''open_app'' w) of
        None \<Rightarrow> (Inr (), w)
      | Some descriptor \<Rightarrow>
          if platform_system E = ''Darwin'' then
            (let bundle_identifier = descriptor;
                 args = [''open'', ''-b'', bundle_identifier, filename];
                 w1 = print_command args w
             in (case subprocess_run E args w1 of
                   (Inl e, w2) \<Rightarrow> (Inl e, w2)
                 | (Inr _, w2) \<Rightarrow> (Inr (), w2)))
          else if platform_system E = ''Linux'' then
            (case shlex_split E descriptor of
               Inl e \<Rightarrow> (Inl e, w)
             | Inr args0 \<Rightarrow>
                 (let args = replace_placeholders 0 (length args0) filename args0;
                      w1 = print_command args w
                  in (case subprocess_Popen E args w1 of
                        (Inl e, w2) \<Rightarrow> (Inl e, w2)
                      | (Inr _, w2) \<Rightarrow> (Inr (), w2))))
          else (Inr (), w))"

section \<open>The viewer registry\<close>

text \<open>
  \<^verbatim>\<open>d[key] = value\<close> on a Python \<^verbatim>\<open>dict\<close>: a key that is present keeps its place and
  takes the new value, a new key goes to the end.
\<close>

fun dict_set :: "string \<Rightarrow> string \<Rightarrow> pydict \<Rightarrow> pydict" where
  "dict_set key val [] = [(key, val)]"
| "dict_set key val ((k, v) # d) =
     (if k = key then (k, val) # d else (k, v) # dict_set key val d)"

definition dict_keys :: "pydict \<Rightarrow> string list" where
  "dict_keys d = map fst d"

text \<open>
  \<^verbatim>\<open>os.path.join(a, b)\<close> of \<^verbatim>\<open>posixpath\<close> for two components: an absolute \<open>b\<close> replaces
  \<open>a\<close>; otherwise \<open>b\<close> is appended, after a slash unless \<open>a\<close> is empty or ends with one.
\<close>

definition os_path_join :: "string \<Rightarrow> string \<Rightarrow> string" where
  "os_path_join a b =
     (if take 1 b = ''/'' then b
      else if a = [] \<or> last a = CHR ''/'' then a @ b
      else a @ ''/'' @ b)"

text \<open>
  \<^verbatim>\<open>os.path.splitext(p)\<close> of \<^verbatim>\<open>posixpath\<close>: the extension starts at the last dot of the
  last component, unless only dots come before it in that component.
  \<open>rfind c p\<close> is \<^verbatim>\<open>p.rfind(c)\<close>, the last index of \<open>c\<close> in \<open>p\<close>, or \<open>-1\<close>.
\<close>

definition rfind :: "char \<Rightarrow> string \<Rightarrow> int" where
  "rfind c p =
     (case filter (\<lambda>i. p ! i = c) (rev [0..<length p]) of
        [] \<Rightarrow> -1
      | i # _ \<Rightarrow> int i)"

definition os_path_splitext :: "string \<Rightarrow> string \<times> string" where
  "os_path_splitext p =
     (let sepIndex = rfind (CHR ''/'') p;
          dotIndex = rfind (CHR ''.'') p
      in if dotIndex > sepIndex
            \<and> list_ex (\<lambda>i. p ! i \<noteq> CHR ''.'') [nat (sepIndex + 1)..<nat dotIndex]
         then (take (nat dotIndex) p, drop (nat dotIndex) p)
         else (p, []))"

text \<open>
  The loop over the bundle identifiers, lines 90 to 116. \<^verbatim>\<open>res[0]\<close> is \<^verbatim>\<open>None\<close> or the
  list of the application's URLs, given here by their paths; reading and parsing the
  \<^verbatim>\<open>Info.plist\<close> (lines 107 to 110) is one collaborator, which may raise. No exception is
  caught in this branch.
\<close>

fun darwin_loop :: "env \<Rightarrow> string list \<Rightarrow> pydict \<Rightarrow> exn + pydict" where
  "darwin_loop E [] pdf_viewers = Inr pdf_viewers"
| "darwin_loop E (bundle_identifier # rest) pdf_viewers =
     (case LSCopyApplicationURLsForBundleIdentifier E bundle_identifier of
        None \<Rightarrow> darwin_loop E rest pdf_viewers
      | Some [] \<Rightarrow> Inl (OtherError ''IndexError'')
      | Some (app_path # _) \<Rightarrow>
          (let plist_path = os_path_join app_path ''Contents/Info.plist''
           in if \<not> os_path_exists E plist_path then darwin_loop E rest pdf_viewers
              else
                (case plistlib_load E plist_path of
                   Inl e \<Rightarrow> Inl e
                 | Inr plist_dict \<Rightarrow>
                     (case plist_dict ''CFBundleName'' of
                        None \<Rightarrow> darwin_loop E rest pdf_viewers
                      | Some name \<Rightarrow>
                          if name \<noteq> [] \<and> name \<noteq> ''Dangerzone''
                          then darwin_loop E rest (dict_set name bundle_identifier pdf_viewers)
                          else darwin_loop E rest pdf_viewers))))"

text \<open>
  The loop over the file names of one directory, lines 126 to 138. The registry is changed in
  place, so when an entry raises, the entries recorded before it stay: the result is the
  registry so far together with the exception, if any.
\<close>

fun scan_filenames :: "env \<Rightarrow> string \<Rightarrow> string list \<Rightarrow> pydict \<Rightarrow> exn option \<times> pydict" where
  "scan_filenames E search_path [] pdf_viewers = (None, pdf_viewers)"
| "scan_filenames E search_path (filename # rest) pdf_viewers =
     (let full_filename = os_path_join search_path filename
      in if snd (os_path_splitext filename) = ''.desktop'' then
           (case xdg_DesktopEntry E full_filename of
              Inl e \<Rightarrow> (Some e, pdf_viewers)
            | Inr desktop_entry \<Rightarrow>
                if ''application/pdf'' \<in> set (getMimeTypes desktop_entry)
                   \<and> getName desktop_entry \<noteq> ''dangerzone''
                then scan_filenames E search_path rest
                       (dict_set (getName desktop_entry) (getExec desktop_entry) pdf_viewers)
                else scan_filenames E search_path rest pdf_viewers)
         else scan_filenames E search_path rest pdf_viewers)"

text \<open>
  The loop over the search paths, lines 120 to 141, with its \<^verbatim>\<open>try\<close>: a
  \<^verbatim>\<open>FileNotFoundError\<close> from the listing or from inside the inner loop ends the work on this
  directory and the loop goes on with the next; any other exception leaves the function.
\<close>

fun linux_loop :: "env \<Rightarrow> string list \<Rightarrow> pydict \<Rightarrow> exn + pydict" where
  "linux_loop E [] pdf_viewers = Inr pdf_viewers"
| "linux_loop E (search_path # rest) pdf_viewers =
     (case os_listdir E search_path of
        Inl e \<Rightarrow>
          if e = FileNotFoundError then linux_loop E rest pdf_viewers else Inl e
      | Inr filenames \<Rightarrow>
          (case scan_filenames E search_path filenames pdf_viewers of
             (None, pdf_viewers') \<Rightarrow> linux_loop E rest pdf_viewers'
           | (Some e, pdf_viewers') \<Rightarrow>
               if e = FileNotFoundError then linux_loop E rest pdf_viewers' else Inl e))"

definition search_paths :: "env \<Rightarrow> string list" where
  "search_paths E =
     [''/usr/share/applications'',
      ''/usr/local/share/applications'',
      os_path_expanduser E ''~/.local/share/applications'']"

text \<open>\<^verbatim>\<open>GuiCommon._find_pdf_viewers\<close>, lines 82 to 143.\<close>

definition find_pdf_viewers :: "env \<Rightarrow> exn + pydict" where
  "find_pdf_viewers E =
     (if platform_system E = ''Darwin'' then
        darwin_loop E (LSCopyAllRoleHandlersForContentType E) []
      else if platform_system E = ''Linux'' then
        linux_loop E (search_paths E) []
      else Inr [])"

text \<open>
  The part of \<^verbatim>\<open>GuiCommon.__init__\<close> (line 39) that builds the registry once and keeps it in
  the object.
\<close>

definition GuiCommon_init :: "env \<Rightarrow> world \<Rightarrow> (exn + unit) \<times> world" where
  "GuiCommon_init E w =
     (case find_pdf_viewers E of
        Inl e \<Rightarrow> (Inl e, w)
      | Inr viewers \<Rightarrow> (Inr (), w\<lparr>self_pdf_viewers := viewers\<rparr>))"

section \<open>Observing a run\<close>

text \<open>
  The events that a call added to the trace, and the kinds of event the properties speak of.
\<close>

definition new_events :: "world \<Rightarrow> world \<Rightarrow> event list" where
  "new_events w w' = drop (length (trace w)) (trace w')"

fun is_dialog :: "event \<Rightarrow> bool" where
  "is_dialog (AlertLaunch message ok_text extra_button_text) = True"
| "is_dialog ev = False"

fun is_process :: "event \<Rightarrow> bool" where
  "is_process (Run args) = True"
| "is_process (Popen args) = True"
| "is_process ev = False"

fun is_print :: "event \<Rightarrow> bool" where
  "is_print (Print s) = True"
| "is_print ev = False"

fun is_group_lookup :: "event \<Rightarrow> bool" where
  "is_group_lookup (GetGrNam name) = True"
| "is_group_lookup ev = False"

fun is_settings_write :: "event \<Rightarrow> bool" where
  "is_settings_write (SettingsSet key val) = True"
| "is_settings_write SettingsSave = True"
| "is_settings_write ev = False"

text \<open>
  The preference dialog of the group flow, the command of its helper, and the history of
  events at the moment the dialog answers and at the moment the helper returns.
\<close>

definition group_dialog :: event where
  "group_dialog =
     AlertLaunch docker_group_message ''I'll type my password each time''
       (Some ''Add my user to the 'docker' group'')"

definition usermod_command :: "env \<Rightarrow> string list" where
  "usermod_command E =
     [''/usr/bin/pkexec'', ''/usr/sbin/usermod'', ''-a'', ''-G'', ''docker'', getpass_getuser E]"

definition history_at_group_dialog :: "world \<Rightarrow> event list" where
  "history_at_group_dialog w = trace w @ [GetGrNam ''docker'', group_dialog]"

definition history_at_usermod :: "env \<Rightarrow> world \<Rightarrow> event list" where
  "history_at_usermod E w =
     history_at_group_dialog w
     @ [SettingsSet ''linux_prefers_typing_password'' (PBool False), SettingsSave,
        Run (usermod_command E)]"






section \<open>A concrete host\<close>

text \<open>
  A Linux host on which the properties are run: one directory of desktop entries, a docker
  group of which the user is not a member, a docker service that answers once the helper that
  starts it has run, helpers that succeed, and a user who clicks the first button.
\<close>

definition evince_entry :: desktop_entry where
  "evince_entry =
     \<lparr>getMimeTypes = [''application/pdf'', ''image/tiff''],
      getName = ''Document Viewer'',
      getExec = ''evince %U''\<rparr>"

definition own_entry :: desktop_entry where
  "own_entry =
     \<lparr>getMimeTypes = [''application/pdf''],
      getName = ''dangerzone'',
      getExec = ''dangerzone %f''\<rparr>"

definition example_env :: env where
  "example_env =
     \<lparr>platform_system = ''Linux'',
      os_path_expanduser = (\<lambda>p. ''/home/alice'' @ drop 1 p),
      os_listdir =
        (\<lambda>p. if p = ''/usr/share/applications''
             then Inr [''org.gnome.Evince.desktop'', ''dangerzone.desktop'', ''mimeinfo.cache'']
             else Inl FileNotFoundError),
      os_path_exists = (\<lambda>p. True),
      xdg_DesktopEntry =
        (\<lambda>f. if f = ''/usr/share/applications/org.gnome.Evince.desktop''
             then Inr evince_entry else Inr own_entry),
      LSCopyAllRoleHandlersForContentType = [],
      LSCopyApplicationURLsForBundleIdentifier = (\<lambda>b. None),
      plistlib_load = (\<lambda>p. Inr Map.empty),
      shlex_split = (\<lambda>t. if t = ''evince %U'' then Inr [''evince'', ''%U''] else Inr [t]),
      grp_getgrnam =
        (\<lambda>n. if n = ''docker'' then Inr \<lparr>gr_name = ''docker'', gr_mem = [''root'']\<rparr>
             else Inl (OtherError ''KeyError'')),
      getpass_getuser = ''alice'',
      get_resource_path = (\<lambda>n. ''/usr/share/dangerzone/'' @ n),
      docker_ready_answer = list_ex is_process,
      dialog_exec = (\<lambda>h. 1),
      subprocess_run_result = (\<lambda>h. Inr 0),
      subprocess_Popen_result = (\<lambda>h. Inr ())\<rparr>"

definition example_world :: world where
  "example_world =
     \<lparr>settings_current =
        [''open_app'' \<mapsto> PStr ''Document Viewer'',
         ''linux_prefers_typing_password'' \<mapsto> PBool False],
      settings_saved =
        [''open_app'' \<mapsto> PStr ''Document Viewer'',
         ''linux_prefers_typing_password'' \<mapsto> PBool False],
      self_pdf_viewers = [(''Document Viewer'', ''evince %U'')],
      trace = []\<rparr>"

text \<open>The same world after the user chose to type the password each time.\<close>

definition typing_world :: world where
  "typing_world =
     example_world\<lparr>settings_current :=
       (settings_current example_world)(''linux_prefers_typing_password'' \<mapsto> PBool True)\<rparr>"

text \<open>A host without a docker group.\<close>

definition no_group_env :: env where
  "no_group_env = example_env\<lparr>grp_getgrnam := (\<lambda>n. Inl (OtherError ''KeyError''))\<rparr>"

text \<open>A user who clicks the second button of the preference dialog.\<close>

definition secondary_env :: env where
  "secondary_env = example_env\<lparr>dialog_exec := (\<lambda>h. 2)\<rparr>"

text \<open>A host on which the docker service never answers.\<close>

definition down_env :: env where
  "down_env = example_env\<lparr>docker_ready_answer := (\<lambda>h. False)\<rparr>"

text \<open>A host that is neither macOS nor Linux.\<close>

definition windows_env :: env where
  "windows_env = example_env\<lparr>platform_system := ''Windows''\<rparr>"

text \<open>A world in which the selected viewer is not in the registry.\<close>

definition okular_world :: world where
  "okular_world =
     example_world\<lparr>settings_current :=
       (settings_current example_world)(''open_app'' \<mapsto> PStr ''Okular'')\<rparr>"

text \<open>
  The same Linux host with a desktop entry on which the parser raises, and a macOS host with
  two handlers of PDF files, one of them the application itself, and one that is gone.
\<close>

definition broken_entry_env :: env where
  "broken_entry_env =
     example_env\<lparr>xdg_DesktopEntry :=
       (\<lambda>f. if f = ''/usr/share/applications/org.gnome.Evince.desktop''
            then Inl (OtherError ''ParsingError'') else Inr own_entry)\<rparr>"

definition mac_env :: env where
  "mac_env =
     example_env\<lparr>platform_system := ''Darwin'',
       LSCopyAllRoleHandlersForContentType :=
         [''com.apple.Preview'', ''press.freedom.dangerzone'', ''org.example.gone''],
       LSCopyApplicationURLsForBundleIdentifier :=
         (\<lambda>b. if b = ''com.apple.Preview'' then Some [''/System/Applications/Preview.app'']
              else if b = ''press.freedom.dangerzone'' then Some [''/Applications/Dangerzone.app'']
              else None),
       plistlib_load :=
         (\<lambda>p. if p = ''/System/Applications/Preview.app/Contents/Info.plist''
              then Inr [''CFBundleName'' \<mapsto> ''Preview'']
              else Inr [''CFBundleName'' \<mapsto> ''Dangerzone''])\<rparr>"


lemmas group_flow_defs =
  ensure_docker_group_preference_def getgrnam_def Alert_launch_def subprocess_run_def
  settings_get_def settings_set_def settings_save_def log_def Let_def group_dialog_def
  usermod_command_def history_at_group_dialog_def history_at_usermod_def new_events_def



lemmas example_defs =
  example_env_def example_world_def typing_world_def no_group_env_def secondary_env_def
  down_env_def windows_env_def okular_world_def broken_entry_env_def mac_env_def

section \<open>Properties of the group-membership flow\<close>

text \<open>
  C6. When the settings record \<^verbatim>\<open>linux_prefers_typing_password\<close> as true, the flow returns
  true at once: the world is returned as it was, so no dialog was presented, the group database
  was not consulted, no helper was run and no setting was written.
\<close>

theorem prefers_typing_short_circuit:
  assumes "settings_get ''linux_prefers_typing_password'' w = PBool True"
  shows "ensure_docker_group_preference E w = (Inr True, w)"
  using assms by (simp add: ensure_docker_group_preference_def py_eq_True_def)

theorem prefers_typing_short_circuit_witness:
  "settings_get ''linux_prefers_typing_password'' typing_world = PBool True
   \<and> ensure_docker_group_preference example_env typing_world = (Inr True, typing_world)"
  using prefers_typing_short_circuit [of typing_world example_env]
  by (simp add: settings_get_def example_defs)

text \<open>
  C7. When the lookup of the group \<^verbatim>\<open>docker\<close> raises, whatever the exception, the flow
  returns true: the exception does not reach the caller, and the call presented no dialog, ran
  no process and wrote no setting.
\<close>

theorem group_lookup_failure_swallowed:
  assumes "grp_getgrnam E ''docker'' = Inl e"
  shows "fst (ensure_docker_group_preference E w) = Inr True
         \<and> \<not> list_ex is_dialog (new_events w (snd (ensure_docker_group_preference E w)))
         \<and> \<not> list_ex is_process (new_events w (snd (ensure_docker_group_preference E w)))
         \<and> \<not> list_ex is_settings_write
               (new_events w (snd (ensure_docker_group_preference E w)))"
  using assms by (simp add: group_flow_defs)

theorem group_lookup_failure_swallowed_witness:
  "grp_getgrnam no_group_env ''docker'' = Inl (OtherError ''KeyError'')
   \<and> ensure_docker_group_preference no_group_env example_world
       = (Inr True, example_world\<lparr>trace := [GetGrNam ''docker'']\<rparr>)"
  using group_lookup_failure_swallowed [of no_group_env "OtherError ''KeyError''" example_world]
  by (simp add: group_flow_defs py_eq_True_def example_defs)

text \<open>
  C1, as the code has it. When the user is not in the group, chooses the second button and the
  helper \<^verbatim>\<open>usermod\<close> exits with code 0, the setting \<^verbatim>\<open>linux_prefers_typing_password\<close> is
  set to false and saved, the notice that asks to log out and back in is shown, and the
  function returns false: line 197 is reached after the notice of success as it is after the
  notice of failure.
\<close>

theorem secondary_choice_helper_succeeds:
  assumes "\<not> py_eq_True (settings_get ''linux_prefers_typing_password'' w)"
    and "grp_getgrnam E ''docker'' = Inr groupinfo"
    and "getpass_getuser E \<notin> set (gr_mem groupinfo)"
    and "dialog_exec E (history_at_group_dialog w) = 2"
    and "subprocess_run_result E (history_at_usermod E w) = Inr 0"
  shows "ensure_docker_group_preference E w =
           (Inr False,
            w\<lparr>settings_current :=
                 (settings_current w)(''linux_prefers_typing_password'' \<mapsto> PBool False),
               settings_saved :=
                 (settings_current w)(''linux_prefers_typing_password'' \<mapsto> PBool False),
               trace := history_at_usermod E w @ [AlertLaunch logout_message ''Ok'' None]\<rparr>)"
  using assms by (simp add: group_flow_defs QDialog_Accepted_def)

theorem secondary_choice_helper_succeeds_witness:
  "ensure_docker_group_preference secondary_env example_world =
     (Inr False,
      example_world\<lparr>settings_saved := settings_current example_world,
        trace := [GetGrNam ''docker'', group_dialog,
                  SettingsSet ''linux_prefers_typing_password'' (PBool False), SettingsSave,
                  Run [''/usr/bin/pkexec'', ''/usr/sbin/usermod'', ''-a'', ''-G'', ''docker'',
                       ''alice''],
                  AlertLaunch logout_message ''Ok'' None]\<rparr>)"
  using secondary_choice_helper_succeeds
          [of example_world secondary_env "\<lparr>gr_name = ''docker'', gr_mem = [''root'']\<rparr>"]
  by (simp add: group_flow_defs py_eq_True_def example_defs fun_eq_iff)

text \<open>
  C1, as the spec has it, fails: on the concrete host, with a user outside the group who
  chooses the second button and a helper that exits with code 0, the function returns false,
  not true.
\<close>

theorem secondary_choice_returns_true_counterexample:
  "\<not> py_eq_True (settings_get ''linux_prefers_typing_password'' example_world)
   \<and> grp_getgrnam secondary_env ''docker'' = Inr \<lparr>gr_name = ''docker'', gr_mem = [''root'']\<rparr>
   \<and> getpass_getuser secondary_env \<notin> set [''root'']
   \<and> dialog_exec secondary_env (history_at_group_dialog example_world) = 2
   \<and> subprocess_run_result secondary_env (history_at_usermod secondary_env example_world)
       = Inr 0
   \<and> fst (ensure_docker_group_preference secondary_env example_world) = Inr False
   \<and> fst (ensure_docker_group_preference secondary_env example_world) \<noteq> Inr True"
  by (simp add: group_flow_defs py_eq_True_def example_defs QDialog_Accepted_def)

text \<open>
  C9. The flow writes the settings (sets or saves) exactly when it reached the preference
  dialog and the dialog returned \<^verbatim>\<open>Accepted\<close> or the code 2 of the second button. In every
  other run, which is the short circuit on the stored preference, the failed group lookup,
  the user already in the group, or a dialog closed with any other code (\<^verbatim>\<open>Rejected\<close>),
  the settings in memory and the saved settings are what they were.
\<close>

theorem settings_written_only_after_choice:
  "let w' = snd (ensure_docker_group_preference E w);
       chosen =
         (\<not> py_eq_True (settings_get ''linux_prefers_typing_password'' w)
          \<and> (case grp_getgrnam E ''docker'' of
                Inl e \<Rightarrow> False
              | Inr groupinfo \<Rightarrow> getpass_getuser E \<notin> set (gr_mem groupinfo))
          \<and> (dialog_exec E (history_at_group_dialog w) = QDialog_Accepted
               \<or> dialog_exec E (history_at_group_dialog w) = 2))
   in (list_ex is_settings_write (new_events w w') \<longleftrightarrow> chosen)
      \<and> (\<not> chosen \<longrightarrow>
            settings_current w' = settings_current w \<and> settings_saved w' = settings_saved w)"
  by (simp add: group_flow_defs split: sum.splits prod.splits)

theorem settings_written_only_after_choice_witness:
  "list_ex is_settings_write
     (new_events example_world (snd (ensure_docker_group_preference example_env example_world)))
   \<and> \<not> list_ex is_settings_write
       (new_events example_world (snd (ensure_docker_group_preference no_group_env example_world)))
   \<and> settings_current (snd (ensure_docker_group_preference no_group_env example_world))
       = settings_current example_world
   \<and> settings_saved (snd (ensure_docker_group_preference no_group_env example_world))
       = settings_saved example_world"
  using settings_written_only_after_choice [of example_env example_world]
        settings_written_only_after_choice [of no_group_env example_world]
  by (simp add: group_flow_defs py_eq_True_def example_defs QDialog_Accepted_def)

section \<open>Properties of the service-activation flow\<close>



section \<open>Properties of the viewer launcher\<close>

text \<open>
  The loop of lines 68 to 75 keeps the length of the list, and run from index 0 it is the map
  that sends each placeholder to the file name and leaves every other token alone.
\<close>

lemma replace_placeholders_length:
  "length (replace_placeholders i n filename args) = length args"
  by (induction i n filename args rule: replace_placeholders.induct)
     (subst replace_placeholders.simps, simp)






text \<open>
  C8. When the viewer selected in the settings is not a key of the registry, the launcher
  returns and leaves the world as it was: no process, no output, no change of state.
\<close>

theorem launch_unknown_viewer_noop:
  assumes "\<forall>s. settings_get ''open_app'' w = PStr s \<longrightarrow> s \<notin> set (dict_keys (self_pdf_viewers w))"
  shows "open_pdf_viewer E filename w = (Inr (), w)"
proof -
  have "dict_lookup (self_pdf_viewers w) (settings_get ''open_app'' w) = None"
    using assms
    by (cases "settings_get ''open_app'' w")
       (simp_all add: dict_lookup_def dict_keys_def map_of_eq_None_iff)
  then show ?thesis by (simp add: open_pdf_viewer_def)
qed

theorem launch_unknown_viewer_noop_witness:
  "settings_get ''open_app'' okular_world = PStr ''Okular''
   \<and> ''Okular'' \<notin> set (dict_keys (self_pdf_viewers okular_world))
   \<and> open_pdf_viewer example_env ''/tmp/safe.pdf'' okular_world = (Inr (), okular_world)"
  using launch_unknown_viewer_noop [of okular_world example_env "''/tmp/safe.pdf''"]
  by (simp add: settings_get_def dict_keys_def example_defs)

text \<open>
  C10. On a platform that is neither Darwin nor Linux the launcher returns and leaves the
  world as it was, for every file path and whatever the registry holds.
\<close>

theorem launch_other_platform_noop:
  assumes "platform_system E \<noteq> ''Darwin''" and "platform_system E \<noteq> ''Linux''"
  shows "open_pdf_viewer E filename w = (Inr (), w)"
  using assms by (simp add: open_pdf_viewer_def split: option.splits)


theorem launch_other_platform_noop_witness:
  "platform_system windows_env = ''Windows''
   \<and> dict_lookup (self_pdf_viewers example_world) (settings_get ''open_app'' example_world)
       = Some ''evince %U''
   \<and> open_pdf_viewer windows_env ''/tmp/safe.pdf'' example_world = (Inr (), example_world)"
  using launch_other_platform_noop [of windows_env "''/tmp/safe.pdf''" example_world]
  by (simp add: settings_get_def dict_lookup_def example_defs)

section \<open>Properties of the viewer registry\<close>




text \<open>
  An assignment keeps the keys in their order and adds a new key at the end, so it keeps them
  distinct.
\<close>

lemma dict_set_keys:
  "dict_keys (dict_set key val d)
     = (if key \<in> set (dict_keys d) then dict_keys d else dict_keys d @ [key])"
proof (induction d)
  case Nil
  show ?case by (simp add: dict_keys_def)
next
  case (Cons kv d)
  obtain k v where kv: "kv = (k, v)" by (cases kv)
  from Cons kv show ?case by (simp add: dict_keys_def)
qed

lemma dict_set_distinct:
  "distinct (dict_keys d) \<Longrightarrow> distinct (dict_keys (dict_set key val d))"
  by (simp add: dict_set_keys)








section \<open>Exceptions\<close>












end
